theory Spec2Isabelle
  imports Main "HOL-Library.Sublist"
begin

section \<open>Data model\<close>

text \<open>
  The application keeps view-local collections of plain records
  \<^verbatim>\<open>product {id, name, price}\<close>; a cart item is the record the server returns for a
  product that was added.  The field \<^verbatim>\<open>id\<close> is called \<open>ident\<close> here (\<open>id\<close> is the
  identity function of HOL).  The type \<open>'i\<close> of identifiers is left open: equality on it
  stands for JavaScript's strict equality \<^verbatim>\<open>===\<close>.

  A JavaScript string is a list of code units; \<open>string\<close> covers the code units below 256.
  A JavaScript Number is an IEEE-754 double; \<open>number\<close> covers the finite integer-valued ones
  (fractions, infinities and NaN are left out).
\<close>

type_synonym number = int

record 'i product =
  ident :: 'i
  name :: string
  price :: number

subsection \<open>Strings: \<^verbatim>\<open>toLowerCase\<close> and \<^verbatim>\<open>includes\<close>\<close>

text \<open>
  \<^verbatim>\<open>String.prototype.toLowerCase\<close> on code units below 256: the letters A to Z and the
  Latin-1 capitals (192 to 222, without the multiplication sign 215) move up by 32.
\<close>

definition lower_unit :: "char \<Rightarrow> char" where
  "lower_unit c =
     (let n = (of_char c :: nat)
      in if (65 \<le> n \<and> n \<le> 90) \<or> (192 \<le> n \<and> n \<le> 222 \<and> n \<noteq> 215)
         then char_of (n + 32) else c)"

definition toLowerCase :: "string \<Rightarrow> string" where
  "toLowerCase s = map lower_unit s"

text \<open>
  \<^verbatim>\<open>s.includes(t)\<close>: scan the start positions of \<open>s\<close> from left to right and test
  whether \<open>t\<close> begins there.
\<close>

fun includes_str :: "string \<Rightarrow> string \<Rightarrow> bool" where
  "includes_str [] t = (t = [])"
| "includes_str (c # s) t = (prefix t (c # s) \<or> includes_str s t)"

subsection \<open>Numbers: \<^verbatim>\<open>+\<close>\<close>

text \<open>
  The sum of two Numbers is the exact sum rounded to the nearest double, ties to the even
  significand.  A double has 53 significant bits: an integer of \<open>k\<close> bits with \<open>k \<le> 53\<close> is a
  double; a longer one is rounded to a multiple of \<open>2 ^ (k - 53)\<close>, where \<open>q\<close> is its leading 53
  bits, \<open>r\<close> the bits cut off and \<open>h\<close> half of the unit in the last place.
\<close>

fun bit_length :: "nat \<Rightarrow> nat" where
  "bit_length n = (if n = 0 then 0 else Suc (bit_length (n div 2)))"

declare bit_length.simps [simp del]

definition round_double :: "nat \<Rightarrow> nat" where
  "round_double m =
     (let k = bit_length m
      in if k \<le> 53 then m
         else let e = k - 53; q = m div 2 ^ e; r = m mod 2 ^ e; h = 2 ^ (e - 1)
              in (if h < r \<or> (r = h \<and> odd q) then q + 1 else q) * 2 ^ e)"

definition js_plus :: "number \<Rightarrow> number \<Rightarrow> number" where
  "js_plus a b =
     (let s = a + b
      in if s < 0 then - int (round_double (nat (- s))) else int (round_double (nat s)))"

section \<open>The search filter of \<^verbatim>\<open>ProductList\<close>\<close>

text \<open>
  \<^verbatim>\<open>
  const filteredProducts = products.filter((product) =>
    product.name.toLowerCase().includes(search.toLowerCase())
  );
  \<close>
\<close>

definition filteredProducts :: "'i product list \<Rightarrow> string \<Rightarrow> 'i product list" where
  "filteredProducts products search =
     filter (\<lambda>product. includes_str (toLowerCase (name product)) (toLowerCase search)) products"

section \<open>Requests, responses and component state\<close>

text \<open>
  The body of a request is either \<^verbatim>\<open>JSON.stringify(product)\<close> or a \<^verbatim>\<open>FormData\<close> object
  with its appended fields.  \<^verbatim>\<open>fetch(url)\<close> with no second argument issues a GET request
  without headers or body.
\<close>

datatype 'i body = JSON_stringify "'i product" | FormData "(string \<times> string) list"

record 'i request =
  url :: string
  "method" :: string
  headers :: "(string \<times> string) list"
  body :: "'i body option"

definition fetch_url :: "string \<Rightarrow> 'i request" where
  "fetch_url u = \<lparr>url = u, method = ''GET'', headers = [], body = None\<rparr>"

text \<open>
  The promise returned by \<^verbatim>\<open>fetch\<close> either rejects or resolves with a response.  A response
  has the flag \<^verbatim>\<open>ok\<close>, and \<^verbatim>\<open>response.json()\<close> resolves with the parsed body (\<open>Some\<close>) or
  rejects (\<open>None\<close>).
\<close>

datatype 'd response = Response (ok: bool) (json: "'d option")

datatype 'd outcome = Rejects | Resolves "'d response"

text \<open>
  Component-local state, with the initial values of the \<^verbatim>\<open>useState\<close> calls:
  \<^verbatim>\<open>ProductList\<close> (products, loading, cart, search), \<^verbatim>\<open>AddProductForm\<close> (name, price,
  message), \<^verbatim>\<open>PromiseExample\<close> (status) and \<^verbatim>\<open>LifecycleExample\<close> (data).
\<close>

record 'i state =
  products :: "'i product list"
  loading :: bool
  cart :: "'i product list"
  search :: string
  form_name :: string
  form_price :: string
  message :: string
  status :: string
  lifecycle_data :: "string option"

definition initial_state :: "'i state" where
  "initial_state =
     \<lparr>products = [], loading = True, cart = [], search = [], form_name = [], form_price = [],
      message = [], status = ''Waiting...'', lifecycle_data = None\<rparr>"

text \<open>What an operation does besides issuing requests.\<close>

datatype 'i effect =
    SetData "'i product list"
  | SetLoading bool
  | SetCart "'i product list"
  | SetSearch string
  | SetName string
  | SetPrice string
  | SetMessage string
  | SetStatus string
  | SetStateData string
  | ConsoleError string
  | ConsoleLog string
  | Alert string
  | SetTimeout nat
  | PreventDefault
  | Focus

fun apply_effect :: "'i effect \<Rightarrow> 'i state \<Rightarrow> 'i state" where
  "apply_effect (SetData d) st = st\<lparr>products := d\<rparr>"
| "apply_effect (SetLoading b) st = st\<lparr>loading := b\<rparr>"
| "apply_effect (SetCart c) st = st\<lparr>cart := c\<rparr>"
| "apply_effect (SetSearch s) st = st\<lparr>search := s\<rparr>"
| "apply_effect (SetName s) st = st\<lparr>form_name := s\<rparr>"
| "apply_effect (SetPrice s) st = st\<lparr>form_price := s\<rparr>"
| "apply_effect (SetMessage s) st = st\<lparr>message := s\<rparr>"
| "apply_effect (SetStatus s) st = st\<lparr>status := s\<rparr>"
| "apply_effect (SetStateData s) st = st\<lparr>lifecycle_data := Some s\<rparr>"
| "apply_effect (ConsoleError s) st = st"
| "apply_effect (ConsoleLog s) st = st"
| "apply_effect (Alert s) st = st"
| "apply_effect (SetTimeout ms) st = st"
| "apply_effect PreventDefault st = st"
| "apply_effect Focus st = st"

section \<open>Asynchronous operations\<close>

text \<open>
  An operation runs to its end, performs an effect and goes on, or issues a request and goes
  on with the outcome of that request once it is settled.
\<close>

datatype ('i, 'd) prog =
    Return
  | Do "'i effect" "('i, 'd) prog"
  | Await "'i request" "'d outcome \<Rightarrow> ('i, 'd) prog"

datatype 'i event = Issued "'i request" | Effect "'i effect"

text \<open>
  The events of an operation, given the outcomes of its requests in the order they are
  issued.  A request with no outcome left stays pending and the operation never goes on.
\<close>

primrec run :: "('i, 'd) prog \<Rightarrow> 'd outcome list \<Rightarrow> 'i event list" where
  "run Return os = []"
| "run (Do e p) os = Effect e # run p os"
| "run (Await q k) os = Issued q # (case os of [] \<Rightarrow> [] | r # rs \<Rightarrow> run (k r) rs)"

fun requests :: "'i event list \<Rightarrow> 'i request list" where
  "requests [] = []"
| "requests (Issued q # evs) = q # requests evs"
| "requests (Effect e # evs) = requests evs"

fun apply_event :: "'i state \<Rightarrow> 'i event \<Rightarrow> 'i state" where
  "apply_event st (Issued q) = st"
| "apply_event st (Effect e) = apply_effect e st"

definition exec :: "('i, 'd) prog \<Rightarrow> 'd outcome list \<Rightarrow> 'i state \<Rightarrow> 'i state" where
  "exec p os st = foldl apply_event st (run p os)"

section \<open>The operations of the application\<close>

text \<open>
  The state argument \<open>st\<close> of an operation is the state of the render that created the
  handler: the values its closure captured.  \<open>ToString\<close> is the conversion of an identifier
  to a string that a template literal applies.
\<close>

subsection \<open>\<^verbatim>\<open>useFetch\<close>\<close>

text \<open>
  \<^verbatim>\<open>
  async function fetchData() {
    try {
      const response = await fetch(url);
      const jsonData = await response.json();
      setData(jsonData);
    } catch (error) {
      console.error('Error fetching data:', error);
    } finally {
      setLoading(false);
    }
  }
  \<close>
\<close>

definition fetchData :: "string \<Rightarrow> ('i, 'i product list) prog" where
  "fetchData u =
     Await (fetch_url u) (\<lambda>settled.
       case settled of
         Rejects \<Rightarrow> Do (ConsoleError ''Error fetching data:'') (Do (SetLoading False) Return)
       | Resolves response \<Rightarrow>
           (case json response of
              None \<Rightarrow> Do (ConsoleError ''Error fetching data:'') (Do (SetLoading False) Return)
            | Some jsonData \<Rightarrow> Do (SetData jsonData) (Do (SetLoading False) Return)))"

subsection \<open>\<^verbatim>\<open>ProductList\<close>\<close>

definition useFetch_effect :: "('i, 'i product list) prog" where
  "useFetch_effect = fetchData ''https://api.example.com/products''"

text \<open>
  \<^verbatim>\<open>
  useEffect(() => {
    if (searchInputRef.current) {
      searchInputRef.current.focus();
    }
  }, []);
  \<close>
\<close>

definition focus_effect :: "bool \<Rightarrow> ('i, 'd) prog" where
  "focus_effect searchInputRef_current = (if searchInputRef_current then Do Focus Return else Return)"

text \<open>
  \<^verbatim>\<open>
  const addToCart = async (product) => {
    try {
      const response = await fetch('https://api.example.com/cart', {
        method: 'POST',
        headers: { 'Content-Type': 'application/json' },
        body: JSON.stringify(product),
      });
      const data = await response.json();
      setCart([...cart, data]);
    } catch (error) {
      console.error('Error adding to cart:', error);
    }
  };
  \<close>
\<close>

definition addToCart :: "'i state \<Rightarrow> 'i product \<Rightarrow> ('i, 'i product) prog" where
  "addToCart st product =
     Await \<lparr>url = ''https://api.example.com/cart'', method = ''POST'',
            headers = [(''Content-Type'', ''application/json'')],
            body = Some (JSON_stringify product)\<rparr>
       (\<lambda>settled.
          case settled of
            Rejects \<Rightarrow> Do (ConsoleError ''Error adding to cart:'') Return
          | Resolves response \<Rightarrow>
              (case json response of
                 None \<Rightarrow> Do (ConsoleError ''Error adding to cart:'') Return
               | Some data \<Rightarrow> Do (SetCart (cart st @ [data])) Return))"

text \<open>
  \<^verbatim>\<open>
  const removeFromCart = async (id) => {
    try {
      const response = await fetch(`https://api.example.com/cart/${id}`, {
        method: 'DELETE',
      });
      if (response.ok) {
        setCart(cart.filter((item) => item.id !== id));
      }
    } catch (error) {
      console.error('Error removing from cart:', error);
    }
  };
  \<close>
\<close>

definition removeFromCart :: "('i \<Rightarrow> string) \<Rightarrow> 'i state \<Rightarrow> 'i \<Rightarrow> ('i, 'd) prog" where
  "removeFromCart ToString st i =
     Await \<lparr>url = ''https://api.example.com/cart/'' @ ToString i, method = ''DELETE'',
            headers = [], body = None\<rparr>
       (\<lambda>settled.
          case settled of
            Rejects \<Rightarrow> Do (ConsoleError ''Error removing from cart:'') Return
          | Resolves response \<Rightarrow>
              if ok response
              then Do (SetCart (filter (\<lambda>item. ident item \<noteq> i) (cart st))) Return
              else Return)"

text \<open>
  \<^verbatim>\<open>
  const updateProductPrice = async (id) => {
    const productToUpdate = products.find((p) => p.id === id);
    if (!productToUpdate) return;
    const updatedProduct = { ...productToUpdate, price: productToUpdate.price + 10 };

    try {
      const response = await fetch(`https://api.example.com/products/${id}`, {
        method: 'PUT',
        headers: { 'Content-Type': 'application/json' },
        body: JSON.stringify(updatedProduct),
      });
      const data = await response.json();
      setProducts(
        products.map((product) =>
          product.id === id ? { ...product, price: data.price } : product
        )
      );
    } catch (error) {
      console.error('Error updating product:', error);
    }
  };
  \<close>
  \<^verbatim>\<open>find\<close> gives the first product with the identifier, or \<^verbatim>\<open>undefined\<close> (\<open>None\<close>).
\<close>

definition updateProductPrice ::
  "('i \<Rightarrow> string) \<Rightarrow> 'i state \<Rightarrow> 'i \<Rightarrow> ('i, 'i product) prog" where
  "updateProductPrice ToString st i =
     (case find (\<lambda>p. ident p = i) (products st) of
        None \<Rightarrow> Return
      | Some productToUpdate \<Rightarrow>
          (let updatedProduct = productToUpdate\<lparr>price := js_plus (price productToUpdate) 10\<rparr>
           in Await \<lparr>url = ''https://api.example.com/products/'' @ ToString i, method = ''PUT'',
                      headers = [(''Content-Type'', ''application/json'')],
                      body = Some (JSON_stringify updatedProduct)\<rparr>
                (\<lambda>settled.
                   case settled of
                     Rejects \<Rightarrow> Do (ConsoleError ''Error updating product:'') Return
                   | Resolves response \<Rightarrow>
                       (case json response of
                          None \<Rightarrow> Do (ConsoleError ''Error updating product:'') Return
                        | Some data \<Rightarrow>
                            Do (SetData
                                  (map (\<lambda>product.
                                          if ident product = i
                                          then product\<lparr>price := price data\<rparr>
                                          else product)
                                     (products st)))
                              Return))))"

text \<open>The \<^verbatim>\<open>onChange\<close> handler of the search input: \<^verbatim>\<open>setSearch(e.target.value)\<close>.\<close>

definition onChange_search :: "string \<Rightarrow> ('i, 'd) prog" where
  "onChange_search target_value = Do (SetSearch target_value) Return"

subsection \<open>\<^verbatim>\<open>AddProductForm\<close>\<close>

text \<open>
  \<^verbatim>\<open>
  const handleSubmit = async (e) => {
    e.preventDefault();
    const formData = new FormData();
    formData.append('name', name);
    formData.append('price', price);

    try {
      const response = await fetch('https://api.example.com/add-product', {
        method: 'POST',
        body: formData,
      });
      const data = await response.json();
      setMessage('Product added successfully!');
    } catch (error) {
      console.error('Error adding product:', error);
      setMessage('Error adding product');
    }
  };
  \<close>
\<close>

definition handleSubmit :: "'i state \<Rightarrow> ('i, 'd) prog" where
  "handleSubmit st =
     Do PreventDefault
       (let formData = FormData [(''name'', form_name st), (''price'', form_price st)]
        in Await \<lparr>url = ''https://api.example.com/add-product'', method = ''POST'',
                   headers = [], body = Some formData\<rparr>
             (\<lambda>settled.
                case settled of
                  Rejects \<Rightarrow>
                    Do (ConsoleError ''Error adding product:'')
                      (Do (SetMessage ''Error adding product'') Return)
                | Resolves response \<Rightarrow>
                    (case json response of
                       None \<Rightarrow>
                         Do (ConsoleError ''Error adding product:'')
                           (Do (SetMessage ''Error adding product'') Return)
                     | Some data \<Rightarrow> Do (SetMessage ''Product added successfully!'') Return)))"

definition onChange_name :: "string \<Rightarrow> ('i, 'd) prog" where
  "onChange_name target_value = Do (SetName target_value) Return"

definition onChange_price :: "string \<Rightarrow> ('i, 'd) prog" where
  "onChange_price target_value = Do (SetPrice target_value) Return"

subsection \<open>\<^verbatim>\<open>PromiseExample\<close>, \<^verbatim>\<open>LifecycleExample\<close>, \<^verbatim>\<open>EventHandlerExample\<close>\<close>

text \<open>
  \<^verbatim>\<open>
  async function waitForDelay() {
    setStatus('Waiting for 2 seconds...');
    await simulateDelay(2000);
    setStatus('2 seconds passed!');
  }
  \<close>
  A timer is an effect of its own; it is not a request.
\<close>

definition waitForDelay :: "('i, 'd) prog" where
  "waitForDelay =
     Do (SetStatus ''Waiting for 2 seconds...'')
       (Do (SetTimeout 2000) (Do (SetStatus ''2 seconds passed!'') Return))"

definition componentDidMount :: "('i, 'd) prog" where
  "componentDidMount =
     Do (ConsoleLog ''Component mounted!'')
       (Do (SetTimeout 1000) (Do (SetStateData ''Hello, World!'') Return))"

definition componentDidUpdate :: "('i, 'd) prog" where
  "componentDidUpdate = Do (ConsoleLog ''Component updated!'') Return"

definition componentWillUnmount :: "('i, 'd) prog" where
  "componentWillUnmount = Do (ConsoleLog ''Component will unmount!'') Return"

definition handleClick :: "('i, 'd) prog" where
  "handleClick = Do (Alert ''Button clicked!'') Return"

subsection \<open>The \<^verbatim>\<open>ProductList\<close> written with promise chains\<close>

text \<open>
  The second source file holds the same component with \<^verbatim>\<open>.then\<close> and \<^verbatim>\<open>.catch\<close> in place
  of \<^verbatim>\<open>await\<close> and \<^verbatim>\<open>try\<close>: a rejection of \<^verbatim>\<open>fetch\<close> or of \<^verbatim>\<open>response.json()\<close> skips the
  \<^verbatim>\<open>.then\<close> callbacks and reaches the \<^verbatim>\<open>.catch\<close> callback.
  \<^verbatim>\<open>
  fetch('https://api.example.com/products')
    .then((response) => response.json())
    .then((data) => setProducts(data))
    .catch((error) => console.error('Error fetching products:', error));
  \<close>
\<close>

definition fetchProducts_then :: "('i, 'i product list) prog" where
  "fetchProducts_then =
     Await (fetch_url ''https://api.example.com/products'') (\<lambda>settled.
       case settled of
         Rejects \<Rightarrow> Do (ConsoleError ''Error fetching products:'') Return
       | Resolves response \<Rightarrow>
           (case json response of
              None \<Rightarrow> Do (ConsoleError ''Error fetching products:'') Return
            | Some data \<Rightarrow> Do (SetData data) Return))"

definition addToCart_then :: "'i state \<Rightarrow> 'i product \<Rightarrow> ('i, 'i product) prog" where
  "addToCart_then st product =
     Await \<lparr>url = ''https://api.example.com/cart'', method = ''POST'',
            headers = [(''Content-Type'', ''application/json'')],
            body = Some (JSON_stringify product)\<rparr>
       (\<lambda>settled.
          case settled of
            Rejects \<Rightarrow> Do (ConsoleError ''Error adding to cart:'') Return
          | Resolves response \<Rightarrow>
              (case json response of
                 None \<Rightarrow> Do (ConsoleError ''Error adding to cart:'') Return
               | Some data \<Rightarrow> Do (SetCart (cart st @ [data])) Return))"

text \<open>
  \<^verbatim>\<open>
  .then((response) => {
    if (response.ok) {
      setCart(cart.filter((item) => item.id !== id));
    } else {
      console.error('Error deleting from cart');
    }
  })
  .catch((error) => console.error('Error removing from cart:', error));
  \<close>
\<close>

definition removeFromCart_then :: "('i \<Rightarrow> string) \<Rightarrow> 'i state \<Rightarrow> 'i \<Rightarrow> ('i, 'd) prog" where
  "removeFromCart_then ToString st i =
     Await \<lparr>url = ''https://api.example.com/cart/'' @ ToString i, method = ''DELETE'',
            headers = [], body = None\<rparr>
       (\<lambda>settled.
          case settled of
            Rejects \<Rightarrow> Do (ConsoleError ''Error removing from cart:'') Return
          | Resolves response \<Rightarrow>
              if ok response
              then Do (SetCart (filter (\<lambda>item. ident item \<noteq> i) (cart st))) Return
              else Do (ConsoleError ''Error deleting from cart'') Return)"

definition updateProductPrice_then ::
  "('i \<Rightarrow> string) \<Rightarrow> 'i state \<Rightarrow> 'i \<Rightarrow> ('i, 'i product) prog" where
  "updateProductPrice_then ToString st i =
     (case find (\<lambda>p. ident p = i) (products st) of
        None \<Rightarrow> Return
      | Some productToUpdate \<Rightarrow>
          (let updatedProduct = productToUpdate\<lparr>price := js_plus (price productToUpdate) 10\<rparr>
           in Await \<lparr>url = ''https://api.example.com/products/'' @ ToString i, method = ''PUT'',
                      headers = [(''Content-Type'', ''application/json'')],
                      body = Some (JSON_stringify updatedProduct)\<rparr>
                (\<lambda>settled.
                   case settled of
                     Rejects \<Rightarrow> Do (ConsoleError ''Error updating product:'') Return
                   | Resolves response \<Rightarrow>
                       (case json response of
                          None \<Rightarrow> Do (ConsoleError ''Error updating product:'') Return
                        | Some data \<Rightarrow>
                            Do (SetData
                                  (map (\<lambda>product.
                                          if ident product = i
                                          then product\<lparr>price := price data\<rparr>
                                          else product)
                                     (products st)))
                              Return))))"

section \<open>The program as a whole\<close>

text \<open>
  Every operation the two source files define: the effects run on mount, the event handlers
  and the lifecycle methods, each with the arguments of its invocation and, for an operation
  that talks to the network, the outcomes of its requests.
\<close>

datatype 'i operation =
    UseFetch_effect "'i product list outcome list"
  | Focus_effect bool
  | AddToCart "'i product" "'i product outcome list"
  | RemoveFromCart 'i "'i product outcome list"
  | UpdateProductPrice 'i "'i product outcome list"
  | OnChange_search string
  | HandleSubmit "'i product outcome list"
  | OnChange_name string
  | OnChange_price string
  | WaitForDelay
  | ComponentDidMount
  | ComponentDidUpdate
  | ComponentWillUnmount
  | HandleClick
  | FetchProducts_then "'i product list outcome list"
  | AddToCart_then "'i product" "'i product outcome list"
  | RemoveFromCart_then 'i "'i product outcome list"
  | UpdateProductPrice_then 'i "'i product outcome list"

fun trace :: "('i \<Rightarrow> string) \<Rightarrow> 'i state \<Rightarrow> 'i operation \<Rightarrow> 'i event list" where
  "trace ToString st (UseFetch_effect os) = run useFetch_effect os"
| "trace ToString st (Focus_effect b) = run (focus_effect b :: ('i, unit) prog) []"
| "trace ToString st (AddToCart product os) = run (addToCart st product) os"
| "trace ToString st (RemoveFromCart i os) = run (removeFromCart ToString st i) os"
| "trace ToString st (UpdateProductPrice i os) = run (updateProductPrice ToString st i) os"
| "trace ToString st (OnChange_search v) = run (onChange_search v :: ('i, unit) prog) []"
| "trace ToString st (HandleSubmit os) = run (handleSubmit st) os"
| "trace ToString st (OnChange_name v) = run (onChange_name v :: ('i, unit) prog) []"
| "trace ToString st (OnChange_price v) = run (onChange_price v :: ('i, unit) prog) []"
| "trace ToString st WaitForDelay = run (waitForDelay :: ('i, unit) prog) []"
| "trace ToString st ComponentDidMount = run (componentDidMount :: ('i, unit) prog) []"
| "trace ToString st ComponentDidUpdate = run (componentDidUpdate :: ('i, unit) prog) []"
| "trace ToString st ComponentWillUnmount = run (componentWillUnmount :: ('i, unit) prog) []"
| "trace ToString st HandleClick = run (handleClick :: ('i, unit) prog) []"
| "trace ToString st (FetchProducts_then os) = run fetchProducts_then os"
| "trace ToString st (AddToCart_then product os) = run (addToCart_then st product) os"
| "trace ToString st (RemoveFromCart_then i os) = run (removeFromCart_then ToString st i) os"
| "trace ToString st (UpdateProductPrice_then i os) = run (updateProductPrice_then ToString st i) os"

text \<open>
  The five placeholder endpoints, as the specification lists them:
  \<^verbatim>\<open>GET /products\<close>, \<^verbatim>\<open>POST /cart\<close>, \<^verbatim>\<open>DELETE /cart/{id}\<close>, \<^verbatim>\<open>PUT /products/{id}\<close>,
  \<^verbatim>\<open>POST /add-product\<close>, on the host \<^verbatim>\<open>https://api.example.com\<close>.
\<close>

datatype endpoint = GET_products | POST_cart | DELETE_cart_id | PUT_products_id | POST_add_product

fun targets :: "'i request \<Rightarrow> endpoint \<Rightarrow> bool" where
  "targets q GET_products =
     (method q = ''GET'' \<and> url q = ''https://api.example.com/products'')"
| "targets q POST_cart =
     (method q = ''POST'' \<and> url q = ''https://api.example.com/cart'')"
| "targets q DELETE_cart_id =
     (method q = ''DELETE'' \<and> prefix ''https://api.example.com/cart/'' (url q))"
| "targets q PUT_products_id =
     (method q = ''PUT'' \<and> prefix ''https://api.example.com/products/'' (url q))"
| "targets q POST_add_product =
     (method q = ''POST'' \<and> url q = ''https://api.example.com/add-product'')"



text \<open>
  The conversion of a natural number to its decimal digits, as a template literal prints an
  identifier that is a small non-negative integer.
\<close>

fun decimal :: "nat \<Rightarrow> string" where
  "decimal n =
     (if n < 10 then [char_of (48 + n)] else decimal (n div 10) @ [char_of (48 + n mod 10)])"

declare decimal.simps [simp del]

section \<open>Properties of the search filter\<close>

lemma includes_str_iff_sublist: "includes_str s t \<longleftrightarrow> sublist t s"
  by (induction s) (auto simp: sublist_Cons_right)

lemma includes_str_iff_append:
  "includes_str s t \<longleftrightarrow> (\<exists>u v. s = u @ t @ v)"
  by (simp add: includes_str_iff_sublist sublist_def)

lemma includes_str_empty: "includes_str s []"
  by (cases s) simp_all

lemma filteredProducts_example:
  "filteredProducts
     [\<lparr>ident = 1::nat, name = ''Red Shoe'', price = 40\<rparr>, \<lparr>ident = 2, name = ''Blue Hat'', price = 5\<rparr>,
      \<lparr>ident = 3, name = ''SHOE lace'', price = 2\<rparr>] ''sHo''
   = [\<lparr>ident = 1, name = ''Red Shoe'', price = 40\<rparr>, \<lparr>ident = 3, name = ''SHOE lace'', price = 2\<rparr>]"
  by code_simp

text \<open>
  C1.  For every list of products and every search string, the displayed list is the input
  list filtered by a case-insensitive substring match: it keeps, in order, exactly the
  products whose lowercased name can be written as some text, then the lowercased search
  string, then some text.
\<close>

theorem filteredProducts_substring_match:
  "filteredProducts ps query =
     filter (\<lambda>product. \<exists>u v. toLowerCase (name product) = u @ toLowerCase query @ v) ps"
  by (simp add: filteredProducts_def includes_str_iff_append)

text \<open>
  C9.  The empty search string is an identity for the filter: every product is displayed.
\<close>

theorem filteredProducts_empty_search:
  "filteredProducts ps [] = ps"
  by (simp add: filteredProducts_def toLowerCase_def includes_str_empty)

section \<open>Helper facts about the operations\<close>

lemma addToCart_then_eq: "addToCart_then = addToCart"
  by (simp add: addToCart_then_def addToCart_def fun_eq_iff)

lemma updateProductPrice_then_eq: "updateProductPrice_then = updateProductPrice"
  by (simp add: updateProductPrice_then_def updateProductPrice_def fun_eq_iff)

lemma count_list_filter:
  "count_list (filter P xs) x = (if P x then count_list xs x else 0)"
  by (induction xs) auto

lemma find_None_iff_absent: "find (\<lambda>p. ident p = i) ps = None \<longleftrightarrow> i \<notin> ident ` set ps"
  by (auto simp: find_None_iff)

subsection \<open>The state after a settled request\<close>

lemma exec_addToCart_resolved:
  "exec (addToCart st product) (Resolves (Response b (Some data)) # os) cur
     = cur\<lparr>cart := cart st @ [data]\<rparr>"
  by (simp add: exec_def addToCart_def)

lemma exec_removeFromCart_ok:
  "exec (removeFromCart ToString st i) (Resolves (Response True d) # os) cur
     = cur\<lparr>cart := filter (\<lambda>item. ident item \<noteq> i) (cart st)\<rparr>"
  by (simp add: exec_def removeFromCart_def)

lemma exec_removeFromCart_then_ok:
  "exec (removeFromCart_then ToString st i) (Resolves (Response True d) # os) cur
     = cur\<lparr>cart := filter (\<lambda>item. ident item \<noteq> i) (cart st)\<rparr>"
  by (simp add: exec_def removeFromCart_then_def)

lemma exec_updateProductPrice_resolved:
  "exec (updateProductPrice ToString st i) (Resolves (Response b (Some data)) # os) cur =
     (if i \<in> ident ` set (products st)
      then cur\<lparr>products :=
             map (\<lambda>product. if ident product = i then product\<lparr>price := price data\<rparr> else product)
               (products st)\<rparr>
      else cur)"
proof (cases "find (\<lambda>p. ident p = i) (products st)")
  case None
  then show ?thesis
    using find_None_iff_absent [of i "products st"]
    by (simp add: exec_def updateProductPrice_def)
next
  case (Some p)
  then show ?thesis
    using find_None_iff_absent [of i "products st"]
    by (simp add: exec_def updateProductPrice_def)
qed


subsection \<open>The events after a rejected request\<close>

lemma run_addToCart_rejects:
  "run (addToCart st product) (Rejects # os) =
     [Issued \<lparr>url = ''https://api.example.com/cart'', method = ''POST'',
              headers = [(''Content-Type'', ''application/json'')],
              body = Some (JSON_stringify product)\<rparr>,
      Effect (ConsoleError ''Error adding to cart:'')]"
  by (simp add: addToCart_def)

lemma run_removeFromCart_rejects:
  "run (removeFromCart ToString st i) (Rejects # os) =
     [Issued \<lparr>url = ''https://api.example.com/cart/'' @ ToString i, method = ''DELETE'',
              headers = [], body = None\<rparr>,
      Effect (ConsoleError ''Error removing from cart:'')]"
  by (simp add: removeFromCart_def)

lemma run_removeFromCart_then_rejects:
  "run (removeFromCart_then ToString st i) (Rejects # os) =
     [Issued \<lparr>url = ''https://api.example.com/cart/'' @ ToString i, method = ''DELETE'',
              headers = [], body = None\<rparr>,
      Effect (ConsoleError ''Error removing from cart:'')]"
  by (simp add: removeFromCart_then_def)

lemma run_updateProductPrice_rejects:
  "run (updateProductPrice ToString st i) (Rejects # os) =
     (case find (\<lambda>p. ident p = i) (products st) of
        None \<Rightarrow> []
      | Some p \<Rightarrow>
          [Issued \<lparr>url = ''https://api.example.com/products/'' @ ToString i, method = ''PUT'',
                   headers = [(''Content-Type'', ''application/json'')],
                   body = Some (JSON_stringify (p\<lparr>price := js_plus (price p) 10\<rparr>))\<rparr>,
           Effect (ConsoleError ''Error updating product:'')])"
  by (simp add: updateProductPrice_def split: option.split)

subsection \<open>The requests of each operation\<close>

lemma requests_fetchData:
  "requests (run (fetchData u) os) = [fetch_url u]"
  by (cases os) (simp_all add: fetchData_def split: outcome.split option.split)

lemma requests_fetchProducts_then:
  "requests (run fetchProducts_then os) = [fetch_url ''https://api.example.com/products'']"
  by (cases os) (simp_all add: fetchProducts_then_def split: outcome.split option.split)

lemma requests_addToCart:
  "requests (run (addToCart st product) os) =
     [\<lparr>url = ''https://api.example.com/cart'', method = ''POST'',
       headers = [(''Content-Type'', ''application/json'')],
       body = Some (JSON_stringify product)\<rparr>]"
  by (cases os) (simp_all add: addToCart_def split: outcome.split option.split)

lemma requests_removeFromCart:
  "requests (run (removeFromCart ToString st i) os) =
     [\<lparr>url = ''https://api.example.com/cart/'' @ ToString i, method = ''DELETE'',
       headers = [], body = None\<rparr>]"
  by (cases os) (simp_all add: removeFromCart_def split: outcome.split)

lemma requests_removeFromCart_then:
  "requests (run (removeFromCart_then ToString st i) os) =
     [\<lparr>url = ''https://api.example.com/cart/'' @ ToString i, method = ''DELETE'',
       headers = [], body = None\<rparr>]"
  by (cases os) (simp_all add: removeFromCart_then_def split: outcome.split)

lemma requests_updateProductPrice:
  "requests (run (updateProductPrice ToString st i) os) =
     (case find (\<lambda>p. ident p = i) (products st) of
        None \<Rightarrow> []
      | Some p \<Rightarrow>
          [\<lparr>url = ''https://api.example.com/products/'' @ ToString i, method = ''PUT'',
            headers = [(''Content-Type'', ''application/json'')],
            body = Some (JSON_stringify (p\<lparr>price := js_plus (price p) 10\<rparr>))\<rparr>])"
  by (cases os) (simp_all add: updateProductPrice_def split: outcome.split option.split)

lemma requests_handleSubmit:
  "requests (run (handleSubmit st) os) =
     [\<lparr>url = ''https://api.example.com/add-product'', method = ''POST'', headers = [],
       body = Some (FormData [(''name'', form_name st), (''price'', form_price st)])\<rparr>]"
  by (cases os) (simp_all add: handleSubmit_def split: outcome.split option.split)

lemma requests_no_network [simp]:
  "requests (run (focus_effect b) os) = []"
  "requests (run (onChange_search v) os) = []"
  "requests (run (onChange_name v) os) = []"
  "requests (run (onChange_price v) os) = []"
  "requests (run waitForDelay os) = []"
  "requests (run componentDidMount os) = []"
  "requests (run componentDidUpdate os) = []"
  "requests (run componentWillUnmount os) = []"
  "requests (run handleClick os) = []"
  by (simp_all add: focus_effect_def onChange_search_def onChange_name_def onChange_price_def
        waitForDelay_def componentDidMount_def componentDidUpdate_def componentWillUnmount_def
        handleClick_def)

lemmas requests_network =
  requests_fetchData requests_fetchProducts_then requests_addToCart requests_removeFromCart
  requests_removeFromCart_then requests_updateProductPrice requests_handleSubmit


section \<open>The cart\<close>

text \<open>
  C2, as amended.  For every cart the handler captured when it was invoked, and every state
  the request is settled in: an \<^verbatim>\<open>addToCart\<close> whose request resolves with a body that parses
  sets the cart to the captured cart with exactly one more item, the one of the response, at
  its end; a \<^verbatim>\<open>removeFromCart\<close> whose response is ok sets the cart to the captured cart
  without the items whose identifier is the given one: every such item is gone, every other
  item is kept as often as it occurred, and the kept items are in their old order.  Nothing
  else in the state changes.  When the cart has not changed between the invocation and the
  settlement, this is the current cart with the item appended, or with the items removed.
  Both source files agree.

  As first stated (the item is appended to the cart, the items are removed from the cart, for
  every cart state) the claim fails: of two \<^verbatim>\<open>addToCart\<close> invoked on the same render the one
  settled last drops the item of the other, and a \<^verbatim>\<open>removeFromCart\<close> settled after an
  \<^verbatim>\<open>addToCart\<close> that was invoked on the same render drops the added item as well.
\<close>

theorem cart_add_and_remove:
  "exec (addToCart st product) (Resolves (Response b (Some data)) # os) cur
     = cur\<lparr>cart := cart st @ [data]\<rparr>
   \<and> exec (addToCart_then st product) (Resolves (Response b (Some data)) # os) cur
     = cur\<lparr>cart := cart st @ [data]\<rparr>
   \<and> (\<exists>kept.
        exec (removeFromCart ToString st i) (Resolves (Response True d) # os') cur
          = cur\<lparr>cart := kept\<rparr>
      \<and> exec (removeFromCart_then ToString st i) (Resolves (Response True d) # os') cur
          = cur\<lparr>cart := kept\<rparr>
      \<and> subseq kept (cart st)
      \<and> (\<forall>item. count_list kept item = (if ident item = i then 0 else count_list (cart st) item))
      \<and> (cart cur = cart st \<longrightarrow>
            exec (addToCart st product) (Resolves (Response b (Some data)) # os) cur
              = cur\<lparr>cart := cart cur @ [data]\<rparr>
          \<and> exec (addToCart_then st product) (Resolves (Response b (Some data)) # os) cur
              = cur\<lparr>cart := cart cur @ [data]\<rparr>
          \<and> subseq kept (cart cur)
          \<and> (\<forall>item. count_list kept item
                 = (if ident item = i then 0 else count_list (cart cur) item))))"
proof -
  let ?kept = "filter (\<lambda>item. ident item \<noteq> i) (cart st)"
  have "subseq ?kept (cart st)" by simp
  moreover have "\<forall>item. count_list ?kept item = (if ident item = i then 0 else count_list (cart st) item)"
    by (simp add: count_list_filter)
  ultimately show ?thesis
    by (simp only: addToCart_then_eq exec_addToCart_resolved exec_removeFromCart_ok
          exec_removeFromCart_then_ok) metis
qed

theorem cart_add_and_remove_witness:
  "cart (initial_state\<lparr>cart := [\<lparr>ident = 1::nat, name = ''Hat'', price = 5\<rparr>], search := ''sh''\<rparr>)
     = cart (initial_state\<lparr>cart := [\<lparr>ident = 1::nat, name = ''Hat'', price = 5\<rparr>]\<rparr>)
   \<and> exec (addToCart (initial_state\<lparr>cart := [\<lparr>ident = 1::nat, name = ''Hat'', price = 5\<rparr>]\<rparr>)
            \<lparr>ident = 2, name = ''Shoe'', price = 40\<rparr>)
        [Resolves (Response True (Some \<lparr>ident = 2, name = ''Shoe'', price = 40\<rparr>))]
        (initial_state\<lparr>cart := [\<lparr>ident = 1::nat, name = ''Hat'', price = 5\<rparr>], search := ''sh''\<rparr>)
     = initial_state\<lparr>cart := [\<lparr>ident = 1::nat, name = ''Hat'', price = 5\<rparr>,
                                 \<lparr>ident = 2, name = ''Shoe'', price = 40\<rparr>],
                       search := ''sh''\<rparr>"
proof -
  let ?hat = "\<lparr>ident = 1::nat, name = ''Hat'', price = 5\<rparr>"
  let ?shoe = "\<lparr>ident = 2::nat, name = ''Shoe'', price = 40\<rparr>"
  let ?st = "initial_state\<lparr>cart := [?hat]\<rparr>"
  let ?cur = "initial_state\<lparr>cart := [?hat], search := ''sh''\<rparr>"
  have h: "cart ?cur = cart ?st" by simp
  from cart_add_and_remove [where st = ?st and cur = ?cur and product = ?shoe and data = ?shoe
      and b = True and os = "[]" and ToString = decimal and i = 1 and d = "None" and os' = "[]"]
  have "cart ?cur = cart ?st \<longrightarrow>
          exec (addToCart ?st ?shoe) [Resolves (Response True (Some ?shoe))] ?cur
            = ?cur\<lparr>cart := cart ?cur @ [?shoe]\<rparr>"
    by blast
  with h show ?thesis by simp
qed

theorem cart_add_and_remove_counterexample:
  "cart (exec (addToCart (initial_state :: nat state) \<lparr>ident = 1, name = ''Hat'', price = 5\<rparr>)
           [Resolves (Response True (Some \<lparr>ident = 1, name = ''Hat'', price = 5\<rparr>))] initial_state)
     = [\<lparr>ident = 1, name = ''Hat'', price = 5\<rparr>]
   \<and> cart (exec (addToCart (initial_state :: nat state) \<lparr>ident = 2, name = ''Shoe'', price = 40\<rparr>)
           [Resolves (Response True (Some \<lparr>ident = 2, name = ''Shoe'', price = 40\<rparr>))]
           (exec (addToCart (initial_state :: nat state) \<lparr>ident = 1, name = ''Hat'', price = 5\<rparr>)
              [Resolves (Response True (Some \<lparr>ident = 1, name = ''Hat'', price = 5\<rparr>))] initial_state))
     = [\<lparr>ident = 2, name = ''Shoe'', price = 40\<rparr>]
   \<and> [\<lparr>ident = 2::nat, name = ''Shoe'', price = 40\<rparr>]
     \<noteq> [\<lparr>ident = 1, name = ''Hat'', price = 5\<rparr>] @ [\<lparr>ident = 2, name = ''Shoe'', price = 40\<rparr>]
   \<and> cart (exec (removeFromCart decimal (initial_state :: nat state) 7)
           [Resolves (Response True (None :: nat product option))]
           (exec (addToCart (initial_state :: nat state) \<lparr>ident = 1, name = ''Hat'', price = 5\<rparr>)
              [Resolves (Response True (Some \<lparr>ident = 1, name = ''Hat'', price = 5\<rparr>))] initial_state))
     = []"
  by (simp add: exec_def addToCart_def removeFromCart_def initial_state_def)

section \<open>The price update\<close>

text \<open>
  C3, as amended.  For every products list the handler captured when it was invoked, every
  identifier that occurs in it and every state the request is settled in: an
  \<^verbatim>\<open>updateProductPrice\<close> whose request resolves with a body that parses sets the products to
  the captured list changed only in this: a product with the given identifier gets the price
  of the response.  The list keeps its length, every product keeps its identifier and its
  name, every product with another identifier keeps its captured price, and the rest of the
  state is unchanged.  When the products have not changed between the invocation and the
  settlement, the current products keep everything but the price of the products with the
  given identifier.

  As first stated (every other product in the list is unchanged, for every products list)
  the claim fails: of two \<^verbatim>\<open>updateProductPrice\<close> invoked on the same render for different
  products, the one settled last puts the price of the other product back to the captured one.
\<close>

theorem updateProductPrice_changes_only_price:
  assumes "i \<in> ident ` set (products st)"
  shows "\<exists>ps'.
      exec (updateProductPrice ToString st i) (Resolves (Response b (Some data)) # os) cur
        = cur\<lparr>products := ps'\<rparr>
    \<and> exec (updateProductPrice_then ToString st i) (Resolves (Response b (Some data)) # os) cur
        = cur\<lparr>products := ps'\<rparr>
    \<and> length ps' = length (products st)
    \<and> (\<forall>k < length (products st).
          ident (ps' ! k) = ident (products st ! k)
        \<and> name (ps' ! k) = name (products st ! k)
        \<and> price (ps' ! k) = (if ident (products st ! k) = i then price data else price (products st ! k)))
    \<and> (products cur = products st \<longrightarrow>
          length ps' = length (products cur)
        \<and> (\<forall>k < length (products cur).
              ident (ps' ! k) = ident (products cur ! k)
            \<and> name (ps' ! k) = name (products cur ! k)
            \<and> price (ps' ! k)
                = (if ident (products cur ! k) = i then price data else price (products cur ! k))))"
proof -
  let ?ps' = "map (\<lambda>product. if ident product = i then product\<lparr>price := price data\<rparr> else product)
               (products st)"
  have e: "exec (updateProductPrice ToString st i) (Resolves (Response b (Some data)) # os) cur
          = cur\<lparr>products := ?ps'\<rparr>"
    using assms by (simp add: exec_updateProductPrice_resolved)
  have l: "length ?ps' = length (products st)" by simp
  have f: "\<forall>k < length (products st).
          ident (?ps' ! k) = ident (products st ! k)
        \<and> name (?ps' ! k) = name (products st ! k)
        \<and> price (?ps' ! k) = (if ident (products st ! k) = i then price data else price (products st ! k))"
    by simp
  have "products cur = products st \<longrightarrow>
          length ?ps' = length (products cur)
        \<and> (\<forall>k < length (products cur).
              ident (?ps' ! k) = ident (products cur ! k)
            \<and> name (?ps' ! k) = name (products cur ! k)
            \<and> price (?ps' ! k)
                = (if ident (products cur ! k) = i then price data else price (products cur ! k)))"
    by simp
  with e l f show ?thesis
    unfolding updateProductPrice_then_eq by (intro exI [of _ ?ps'] conjI)
qed

theorem updateProductPrice_changes_only_price_witness:
  "(2::nat) \<in> ident ` set (products (initial_state\<lparr>products :=
       [\<lparr>ident = 1, name = ''Hat'', price = 5\<rparr>, \<lparr>ident = 2, name = ''Shoe'', price = 40\<rparr>]\<rparr>))
   \<and> (\<exists>ps'. exec (updateProductPrice decimal
          (initial_state\<lparr>products :=
             [\<lparr>ident = 1, name = ''Hat'', price = 5\<rparr>, \<lparr>ident = 2, name = ''Shoe'', price = 40\<rparr>]\<rparr>) 2)
          [Resolves (Response True (Some \<lparr>ident = 2, name = ''Shoe'', price = 50\<rparr>))]
          (initial_state\<lparr>products :=
             [\<lparr>ident = 1, name = ''Hat'', price = 5\<rparr>, \<lparr>ident = 2, name = ''Shoe'', price = 40\<rparr>],
             search := ''sh''\<rparr>)
        = initial_state\<lparr>products := ps', search := ''sh''\<rparr>
      \<and> length ps' = 2 \<and> price (ps' ! 0) = 5 \<and> price (ps' ! 1) = 50 \<and> name (ps' ! 1) = ''Shoe'')"
proof -
  let ?st = "initial_state\<lparr>products :=
       [\<lparr>ident = 1::nat, name = ''Hat'', price = 5\<rparr>, \<lparr>ident = 2, name = ''Shoe'', price = 40\<rparr>]\<rparr>"
  let ?cur = "initial_state\<lparr>products :=
       [\<lparr>ident = 1::nat, name = ''Hat'', price = 5\<rparr>, \<lparr>ident = 2, name = ''Shoe'', price = 40\<rparr>],
       search := ''sh''\<rparr>"
  have h: "2 \<in> ident ` set (products ?st)" by simp
  have c: "products ?cur = products ?st" by simp
  from updateProductPrice_changes_only_price [OF h, of decimal True
      "\<lparr>ident = 2, name = ''Shoe'', price = 50\<rparr>" "[]" ?cur]
  obtain ps' where
    "exec (updateProductPrice decimal ?st 2) [Resolves (Response True (Some \<lparr>ident = 2, name = ''Shoe'', price = 50\<rparr>))] ?cur = ?cur\<lparr>products := ps'\<rparr>"
    "products ?cur = products ?st \<longrightarrow>
          length ps' = length (products ?cur)
        \<and> (\<forall>k < length (products ?cur).
              ident (ps' ! k) = ident (products ?cur ! k)
            \<and> name (ps' ! k) = name (products ?cur ! k)
            \<and> price (ps' ! k)
                = (if ident (products ?cur ! k) = 2 then price \<lparr>ident = 2::nat, name = ''Shoe'', price = 50\<rparr> else price (products ?cur ! k)))"
    by blast
  with c have "exec (updateProductPrice decimal ?st 2) [Resolves (Response True (Some \<lparr>ident = 2, name = ''Shoe'', price = 50\<rparr>))] ?cur = initial_state\<lparr>products := ps', search := ''sh''\<rparr>
      \<and> length ps' = 2 \<and> price (ps' ! 0) = 5 \<and> price (ps' ! 1) = 50 \<and> name (ps' ! 1) = ''Shoe''"
    by simp
  with h show ?thesis by blast
qed

theorem updateProductPrice_changes_only_price_counterexample:
  "products (exec (updateProductPrice decimal
        (initial_state\<lparr>products :=
           [\<lparr>ident = 1::nat, name = ''Hat'', price = 5\<rparr>, \<lparr>ident = 2, name = ''Shoe'', price = 40\<rparr>]\<rparr>) 1)
        [Resolves (Response True (Some \<lparr>ident = 1, name = ''Hat'', price = 15\<rparr>))]
        (initial_state\<lparr>products :=
           [\<lparr>ident = 1::nat, name = ''Hat'', price = 5\<rparr>, \<lparr>ident = 2, name = ''Shoe'', price = 40\<rparr>]\<rparr>))
     = [\<lparr>ident = 1, name = ''Hat'', price = 15\<rparr>, \<lparr>ident = 2, name = ''Shoe'', price = 40\<rparr>]
   \<and> products (exec (updateProductPrice decimal
        (initial_state\<lparr>products :=
           [\<lparr>ident = 1::nat, name = ''Hat'', price = 5\<rparr>, \<lparr>ident = 2, name = ''Shoe'', price = 40\<rparr>]\<rparr>) 2)
        [Resolves (Response True (Some \<lparr>ident = 2, name = ''Shoe'', price = 50\<rparr>))]
        (initial_state\<lparr>products :=
           [\<lparr>ident = 1::nat, name = ''Hat'', price = 15\<rparr>, \<lparr>ident = 2, name = ''Shoe'', price = 40\<rparr>]\<rparr>))
     = [\<lparr>ident = 1, name = ''Hat'', price = 5\<rparr>, \<lparr>ident = 2, name = ''Shoe'', price = 50\<rparr>]
   \<and> (1::nat) \<noteq> 2 \<and> (5::number) \<noteq> 15"
  by (simp add: exec_def updateProductPrice_def)

text \<open>
  C8.  For every identifier that does not occur in the products list, \<^verbatim>\<open>updateProductPrice\<close>
  returns at the guard: it has no events at all, so it reads no price, issues no request and
  leaves the state as it is, whatever the network would have answered.
\<close>

theorem updateProductPrice_absent_id:
  assumes "i \<notin> ident ` set (products st)"
  shows "updateProductPrice ToString st i = Return
       \<and> updateProductPrice_then ToString st i = Return
       \<and> run (updateProductPrice ToString st i) os = []
       \<and> run (updateProductPrice_then ToString st i) os = []
       \<and> exec (updateProductPrice ToString st i) os cur = cur
       \<and> exec (updateProductPrice_then ToString st i) os cur = cur"
proof -
  have "find (\<lambda>p. ident p = i) (products st) = None"
    using assms by (simp add: find_None_iff_absent)
  then have "updateProductPrice ToString st i = Return"
    by (simp add: updateProductPrice_def)
  then show ?thesis
    by (simp add: updateProductPrice_then_eq exec_def)
qed

theorem updateProductPrice_absent_id_witness:
  "(3::nat) \<notin> ident ` set (products (initial_state\<lparr>products := [\<lparr>ident = 1, name = ''Hat'', price = 5\<rparr>]\<rparr>))
   \<and> run (updateProductPrice decimal (initial_state\<lparr>products := [\<lparr>ident = 1, name = ''Hat'', price = 5\<rparr>]\<rparr>) 3)
         [Resolves (Response True (Some \<lparr>ident = 3, name = ''Cap'', price = 9\<rparr>))] = []
   \<and> exec (updateProductPrice decimal (initial_state\<lparr>products := [\<lparr>ident = 1, name = ''Hat'', price = 5\<rparr>]\<rparr>) 3)
         [Resolves (Response True (Some \<lparr>ident = 3, name = ''Cap'', price = 9\<rparr>))]
         (initial_state\<lparr>products := [\<lparr>ident = 1, name = ''Hat'', price = 5\<rparr>]\<rparr>)
       = initial_state\<lparr>products := [\<lparr>ident = 1, name = ''Hat'', price = 5\<rparr>]\<rparr>"
proof -
  let ?st = "initial_state\<lparr>products := [\<lparr>ident = 1::nat, name = ''Hat'', price = 5\<rparr>]\<rparr>"
  have h: "3 \<notin> ident ` set (products ?st)" by simp
  show ?thesis
    using h updateProductPrice_absent_id [OF h, of decimal
        "[Resolves (Response True (Some \<lparr>ident = 3, name = ''Cap'', price = 9\<rparr>))]" ?st]
    by (simp add: exec_def)
qed

subsection \<open>The price that is sent\<close>

lemma bit_length_le_iff: "bit_length m \<le> k \<longleftrightarrow> m < 2 ^ k"
proof (induction m arbitrary: k rule: bit_length.induct)
  case (1 n)
  show ?case
  proof (cases "n = 0")
    case True
    then show ?thesis by (subst bit_length.simps) simp
  next
    case False
    show ?thesis
    proof (cases k)
      case 0
      with False show ?thesis by (subst bit_length.simps) simp
    next
      case (Suc j)
      have "bit_length n \<le> Suc j \<longleftrightarrow> bit_length (n div 2) \<le> j"
        using False by (subst bit_length.simps) simp
      also have "\<dots> \<longleftrightarrow> n div 2 < 2 ^ j"
        using "1.IH" [OF False] .
      also have "\<dots> \<longleftrightarrow> n < 2 ^ Suc j"
        by auto
      finally show ?thesis using Suc by simp
    qed
  qed
qed

lemma bit_length_eq: "2 ^ k \<le> m \<Longrightarrow> m < 2 ^ Suc k \<Longrightarrow> bit_length m = Suc k"
  using bit_length_le_iff [of m "Suc k"] bit_length_le_iff [of m k] by simp

lemma round_double_exact: "m \<le> 2 ^ 53 \<Longrightarrow> round_double m = m"
proof (cases "m = 2 ^ 53")
  case True
  have "bit_length ((2::nat) ^ 53) = Suc 53"
    by (rule bit_length_eq) simp_all
  then show ?thesis
    using True by (simp add: round_double_def Let_def)
next
  case False
  assume "m \<le> 2 ^ 53"
  with False have "m < 2 ^ 53" by simp
  then have "bit_length m \<le> 53" by (simp add: bit_length_le_iff)
  then show ?thesis by (simp add: round_double_def Let_def)
qed

lemma js_plus_exact: "\<bar>a + b\<bar> \<le> 2 ^ 53 \<Longrightarrow> js_plus a b = a + b"
proof -
  assume h: "\<bar>a + b\<bar> \<le> 2 ^ 53"
  show ?thesis
  proof (cases "a + b < 0")
    case True
    with h have "nat (- (a + b)) \<le> 2 ^ 53" by (simp add: nat_le_iff)
    then have "round_double (nat (- (a + b))) = nat (- (a + b))" by (rule round_double_exact)
    with True show ?thesis by (simp add: js_plus_def Let_def)
  next
    case False
    with h have "nat (a + b) \<le> 2 ^ 53" by (simp add: nat_le_iff)
    then have "round_double (nat (a + b)) = nat (a + b)" by (rule round_double_exact)
    with False show ?thesis by (simp add: js_plus_def Let_def)
  qed
qed

lemma js_plus_examples:
  "js_plus 40 10 = 50"
  "js_plus (- 25) 10 = - 15"
  "js_plus 9007199254740992 1 = 9007199254740992"
  "js_plus 9007199254740992 3 = 9007199254740996"
  "js_plus 18014398509481984 10 = 18014398509481992"
proof -
  show "js_plus 40 10 = 50" "js_plus (- 25) 10 = - 15"
    by (simp_all add: js_plus_exact)
  have "bit_length 9007199254740993 = Suc 53" "bit_length 9007199254740995 = Suc 53"
    by (rule bit_length_eq; simp)+
  then show "js_plus 9007199254740992 1 = 9007199254740992"
    "js_plus 9007199254740992 3 = 9007199254740996"
    by (simp_all add: js_plus_def round_double_def Let_def)
  have "bit_length 18014398509481994 = Suc 54"
    by (rule bit_length_eq) simp_all
  then show "js_plus 18014398509481984 10 = 18014398509481992"
    by (simp add: js_plus_def round_double_def Let_def)
qed

lemma js_plus_large: "js_plus 1152921504606846976 10 = 1152921504606846976"
proof -
  have "bit_length 1152921504606846986 = Suc 60"
    by (rule bit_length_eq) simp_all
  then show ?thesis
    by (simp add: js_plus_def round_double_def Let_def)
qed

text \<open>
  C10, as amended.  For every identifier for which \<^verbatim>\<open>find\<close> gives a product of the list,
  \<^verbatim>\<open>updateProductPrice\<close> issues one PUT request whose body is that product with the price
  replaced by the Number sum of the price and 10 and with all other fields as they are.  The
  sum is exactly 10 greater than the price whenever the price is an integer of magnitude at
  most \<open>2 ^ 53 - 10\<close>.

  As first stated (the sent price is exactly 10 greater for every product) the claim fails:
  the sum of two Numbers is rounded to a double, and for the price \<open>2 ^ 60\<close> the sent price is
  the price itself.
\<close>

theorem updateProductPrice_request_body:
  assumes "find (\<lambda>p. ident p = i) (products st) = Some p"
  shows "requests (run (updateProductPrice ToString st i) os) =
           [\<lparr>url = ''https://api.example.com/products/'' @ ToString i, method = ''PUT'',
             headers = [(''Content-Type'', ''application/json'')],
             body = Some (JSON_stringify (p\<lparr>price := js_plus (price p) 10\<rparr>))\<rparr>]
       \<and> requests (run (updateProductPrice_then ToString st i) os) =
           requests (run (updateProductPrice ToString st i) os)
       \<and> (\<bar>price p\<bar> \<le> 2 ^ 53 - 10 \<longrightarrow> js_plus (price p) 10 = price p + 10)"
proof -
  have "\<bar>price p\<bar> \<le> 2 ^ 53 - 10 \<longrightarrow> js_plus (price p) 10 = price p + 10"
  proof
    assume "\<bar>price p\<bar> \<le> 2 ^ 53 - 10"
    then have "\<bar>price p + 10\<bar> \<le> 2 ^ 53" by simp
    then show "js_plus (price p) 10 = price p + 10" by (rule js_plus_exact)
  qed
  with assms show ?thesis
    by (simp add: requests_updateProductPrice updateProductPrice_then_eq)
qed

theorem updateProductPrice_request_body_witness:
  "find (\<lambda>p. ident p = 2)
     (products (initial_state\<lparr>products :=
        [\<lparr>ident = 1::nat, name = ''Hat'', price = 5\<rparr>, \<lparr>ident = 2, name = ''Shoe'', price = 40\<rparr>]\<rparr>))
     = Some \<lparr>ident = 2, name = ''Shoe'', price = 40\<rparr>
   \<and> map body (requests (run (updateProductPrice decimal
        (initial_state\<lparr>products :=
           [\<lparr>ident = 1::nat, name = ''Hat'', price = 5\<rparr>, \<lparr>ident = 2, name = ''Shoe'', price = 40\<rparr>]\<rparr>) 2)
        [Rejects]))
     = [Some (JSON_stringify \<lparr>ident = 2, name = ''Shoe'', price = 50\<rparr>)]"
proof -
  let ?st = "initial_state\<lparr>products :=
        [\<lparr>ident = 1::nat, name = ''Hat'', price = 5\<rparr>, \<lparr>ident = 2, name = ''Shoe'', price = 40\<rparr>]\<rparr>"
  have h: "find (\<lambda>p. ident p = 2) (products ?st) = Some \<lparr>ident = 2, name = ''Shoe'', price = 40\<rparr>"
    by simp
  show ?thesis
    using h updateProductPrice_request_body [OF h, of decimal "[Rejects]"]
    by simp
qed

theorem updateProductPrice_request_body_counterexample:
  "map body (requests (run (updateProductPrice decimal
      (initial_state\<lparr>products := [\<lparr>ident = 1::nat, name = ''Yacht'', price = 1152921504606846976\<rparr>]\<rparr>) 1)
      ([] :: nat product outcome list)))
     = [Some (JSON_stringify \<lparr>ident = 1, name = ''Yacht'', price = 1152921504606846976\<rparr>)]
   \<and> (1152921504606846976 :: number) \<noteq> 1152921504606846976 + 10"
  by (simp add: requests_updateProductPrice js_plus_large)

section \<open>Failure\<close>

text \<open>
  C4.  For every invocation of \<^verbatim>\<open>addToCart\<close>, \<^verbatim>\<open>removeFromCart\<close> or \<^verbatim>\<open>updateProductPrice\<close>, in
  either source file: when the request rejects, the operation does nothing after the request
  but log the error to the console, and the state it is settled in (products and cart
  included) is unchanged.
\<close>

theorem rejected_request_leaves_state:
  "(\<exists>q. run (addToCart st product) (Rejects # os) = [Issued q, Effect (ConsoleError ''Error adding to cart:'')])
   \<and> (\<exists>q. run (removeFromCart ToString st i) (Rejects # os') = [Issued q, Effect (ConsoleError ''Error removing from cart:'')])
   \<and> (run (updateProductPrice ToString st i) (Rejects # os) = []
        \<or> (\<exists>q. run (updateProductPrice ToString st i) (Rejects # os) = [Issued q, Effect (ConsoleError ''Error updating product:'')]))
   \<and> run (addToCart_then st product) (Rejects # os) = run (addToCart st product) (Rejects # os)
   \<and> run (removeFromCart_then ToString st i) (Rejects # os') = run (removeFromCart ToString st i) (Rejects # os')
   \<and> run (updateProductPrice_then ToString st i) (Rejects # os) = run (updateProductPrice ToString st i) (Rejects # os)
   \<and> exec (addToCart st product) (Rejects # os) cur = cur
   \<and> exec (removeFromCart ToString st i) (Rejects # os') cur = cur
   \<and> exec (updateProductPrice ToString st i) (Rejects # os) cur = cur
   \<and> exec (addToCart_then st product) (Rejects # os) cur = cur
   \<and> exec (removeFromCart_then ToString st i) (Rejects # os') cur = cur
   \<and> exec (updateProductPrice_then ToString st i) (Rejects # os) cur = cur"
  by (simp add: exec_def addToCart_then_eq updateProductPrice_then_eq run_addToCart_rejects
        run_removeFromCart_rejects run_removeFromCart_then_rejects run_updateProductPrice_rejects
        split: option.split)

section \<open>The form\<close>






section \<open>Endpoints\<close>

lemma targets_products:
  "targets (fetch_url ''https://api.example.com/products'') e \<longleftrightarrow> e = GET_products"
  by (cases e) (simp_all add: fetch_url_def)

lemma targets_cart:
  "targets \<lparr>url = ''https://api.example.com/cart'', method = ''POST'', headers = h, body = b\<rparr> e
     \<longleftrightarrow> e = POST_cart"
  by (cases e) simp_all

lemma targets_cart_id:
  "targets \<lparr>url = ''https://api.example.com/cart/'' @ s, method = ''DELETE'', headers = h, body = b\<rparr> e
     \<longleftrightarrow> e = DELETE_cart_id"
  by (cases e) simp_all

lemma targets_products_id:
  "targets \<lparr>url = ''https://api.example.com/products/'' @ s, method = ''PUT'', headers = h, body = b\<rparr> e
     \<longleftrightarrow> e = PUT_products_id"
  by (cases e) simp_all

lemma targets_add_product:
  "targets \<lparr>url = ''https://api.example.com/add-product'', method = ''POST'', headers = h, body = b\<rparr> e
     \<longleftrightarrow> e = POST_add_product"
  by (cases e) simp_all

lemmas targets_iff =
  targets_products targets_cart targets_cart_id targets_products_id targets_add_product

lemma issued_request_targets_one:
  "q \<in> set (requests (trace ToString st op)) \<Longrightarrow> \<exists>!e. targets q e"
  by (cases op)
     (auto simp del: append.simps simp add: requests_network targets_iff useFetch_effect_def
        addToCart_then_eq updateProductPrice_then_eq split: option.splits)

lemma endpoint_is_issued:
  "\<exists>st op. \<exists>q \<in> set (requests (trace ToString (st :: 'i state) op)). targets q e"
proof (cases e)
  case GET_products
  have "\<exists>q \<in> set (requests (trace ToString (initial_state :: 'i state) (UseFetch_effect []))).
          targets q GET_products"
    by (simp add: requests_network fetch_url_def useFetch_effect_def)
  with GET_products show ?thesis by blast
next
  case POST_cart
  have "\<exists>q \<in> set (requests (trace ToString (initial_state :: 'i state)
                              (AddToCart \<lparr>ident = undefined, name = [], price = 0\<rparr> []))).
          targets q POST_cart"
    by (simp add: requests_network targets_iff)
  with POST_cart show ?thesis by blast
next
  case DELETE_cart_id
  have "\<exists>q \<in> set (requests (trace ToString (initial_state :: 'i state) (RemoveFromCart undefined []))).
          targets q DELETE_cart_id"
    by (simp add: requests_network targets_iff)
  with DELETE_cart_id show ?thesis by blast
next
  case PUT_products_id
  have "\<exists>q \<in> set (requests (trace ToString
                    ((initial_state :: 'i state)\<lparr>products := [\<lparr>ident = undefined, name = [], price = 0\<rparr>]\<rparr>)
                    (UpdateProductPrice undefined []))).
          targets q PUT_products_id"
    by (simp add: requests_network targets_iff)
  with PUT_products_id show ?thesis by blast
next
  case POST_add_product
  have "\<exists>q \<in> set (requests (trace ToString (initial_state :: 'i state) (HandleSubmit []))).
          targets q POST_add_product"
    by (simp add: requests_network targets_iff)
  with POST_add_product show ?thesis by blast
qed

text \<open>
  C6.  Every request that an operation of the program issues, in any state and whatever the
  network answers, targets exactly one of the five placeholder endpoints on the example host,
  with the method the specification gives for it; and each of the five endpoints is targeted
  by a request of some operation.
\<close>

theorem requests_target_the_five_endpoints:
  "(\<forall>q \<in> set (requests (trace ToString st op)). \<exists>!e. targets q e)
   \<and> (\<forall>e. \<exists>st' op'. \<exists>q \<in> set (requests (trace ToString (st' :: 'i state) op')). targets q e)"
  using issued_request_targets_one [of _ ToString st op] endpoint_is_issued [of ToString]
  by blast

theorem requests_target_the_five_endpoints_witness:
  "set (requests (trace decimal (initial_state :: nat state) (RemoveFromCart 7 [Rejects])))
     = {\<lparr>url = ''https://api.example.com/cart/'' @ decimal 7, method = ''DELETE'', headers = [], body = None\<rparr>}
   \<and> targets \<lparr>url = ''https://api.example.com/cart/'' @ decimal 7, method = ''DELETE'',
               headers = [], body = (None :: nat body option)\<rparr> DELETE_cart_id"
proof -
  let ?q = "\<lparr>url = ''https://api.example.com/cart/'' @ decimal 7, method = ''DELETE'',
             headers = [], body = (None :: nat body option)\<rparr>"
  have s: "set (requests (trace decimal (initial_state :: nat state) (RemoveFromCart 7 [Rejects]))) = {?q}"
    by (simp add: removeFromCart_def)
  then have "?q \<in> set (requests (trace decimal (initial_state :: nat state) (RemoveFromCart 7 [Rejects])))"
    by simp
  with requests_target_the_five_endpoints [of decimal "initial_state :: nat state" "RemoveFromCart 7 [Rejects]"]
  have "\<exists>!e. targets ?q e" by blast
  moreover have "targets ?q DELETE_cart_id" by simp
  ultimately show ?thesis using s by blast
qed

section \<open>Single-shot operations\<close>


end
